theory Spec2Isabelle
  imports Main
begin

section \<open>A finite-domain first-order logic evaluator (logic.py)\<close>

text \<open>
  The module keeps four process-wide stores (\<open>universe\<close>, \<open>predicates\<close>, \<open>free\<close>,
  \<open>knowledge_base\<close>) and builds formulas from objects. The embedding passes the stores
  explicitly in a record, returns every raise as a value, and bounds the one recursion
  that need not end (re-interpreting an application) by fuel. What the module prints
  (the notice of a new element, the warning of a rebound free variable) is left out.
\<close>

subsection \<open>Terms, arguments, formulas\<close>

text \<open>
  \<open>class Term\<close>: an object with a \<open>name\<close>. \<open>__eq__\<close> and \<open>__hash__\<close> go by the name when it
  is not empty, and by object identity when it is empty.
\<close>

datatype Term = Term (name: string)

text \<open>
  The callable at the head of an \<open>App\<close> tuple: \<open>App.interpret\<close> tests it for
  \<open>Predicate\<close>, then for \<open>Function\<close>, and raises for anything else. Predicate objects
  have identity (\<open>__hash__\<close> is \<open>id(self)\<close>), so an application refers to one by its
  address.
\<close>

datatype callable = PredicateRef nat | FunctionRef nat | OtherCallable

text \<open>
  Python passes arguments untyped. The values the code distinguishes are a \<open>str\<close>, a
  \<open>Term\<close>, a \<open>Formula\<close> or \<open>App\<close>, and the \<open>bool\<close> that \<open>Predicate.interpret\<close> writes
  into the argument list in place of a nested formula. \<open>PredicateObj\<close> is a bare
  Predicate object used as a formula (Predicate subclasses Formula).
\<close>

datatype arg = Str string | TermArg Term | BoolArg bool | FormArg formula
and formula =
    Top
  | Bot
  | And_conn formula formula
  | Or_conn formula formula
  | Implies_conn formula formula
  | Not_conn formula
  | Forall string formula
  | Exists string formula
  | App callable "arg list"
  | PredicateObj nat

text \<open>\<open>SATAssign\<close> and \<open>FreeVars\<close> are dicts from names to terms.\<close>

type_synonym bindings = "string \<rightharpoonup> Term"

datatype value_error =
    NotDefinedForTerms string
  | MustBeTerms arg
  | TypeUnsuitable arg
  | CannotInterpret arg "Term list" bindings
  | NotYetImplemented
  | UnknownCallable
  | Inconsistent formula bindings
  | NotSupportedForPredicates string
  | NoExistentialFacts

datatype error = AssertionError | ValueError value_error | TypeError string

subsection \<open>The stores\<close>

text \<open>
  \<open>class Predicate\<close>: \<open>arity\<close>, \<open>name\<close> and the fact table \<open>_truths\<close>, a set of tuples of
  terms.
\<close>

record Predicate =
  arity :: int
  pred_name :: string
  truths :: "Term list set"

text \<open>
  \<open>universe\<close> is a Python set; the list gives its elements in the order in which the
  set iterates. \<open>heap\<close> holds the Predicate objects by address, \<open>next_id\<close> is the next
  unused address. \<open>predicates\<close> is the module's registry of Predicate objects.
  \<open>knowledge_base\<close> is a set of \<open>(formula, name)\<close> tuples whose formulas compare by
  identity; every inserted formula is a new object, so nothing is ever merged and the
  list keeps one entry for each insertion.
\<close>

record state =
  universe :: "Term list"
  heap :: "nat \<Rightarrow> Predicate"
  next_id :: nat
  predicates :: "nat set"
  free :: bindings
  knowledge_base :: "(formula \<times> string option) list"

text \<open>The module's state right after import, before \<open>_tests\<close> runs.\<close>

definition initial :: state where
  "initial = \<lparr>universe = [], heap = (\<lambda>_. \<lparr>arity = 0, pred_name = [], truths = {}\<rparr>),
     next_id = 0, predicates = {}, free = Map.empty, knowledge_base = []\<rparr>"

text \<open>
  \<open>arg in universe\<close>. The set finds an element with the hash of \<open>arg\<close> that
  \<open>Term.__eq__\<close> accepts. A \<open>str\<close> hashes as a Term of that name does, and
  \<open>Term.__eq__\<close> compares names when the stored name is not empty. A formula or a bool
  hashes by identity or by number and meets no stored term.
\<close>

fun in_universe :: "Term list \<Rightarrow> arg \<Rightarrow> bool" where
  "in_universe U (Str s) = list_ex (\<lambda>t. name t \<noteq> [] \<and> name t = s) U"
| "in_universe U (TermArg t') = list_ex (\<lambda>t. name t \<noteq> [] \<and> name t = name t') U"
| "in_universe U (BoolArg b) = False"
| "in_universe U (FormArg f) = False"

text \<open>
  \<open>Term.__init__\<close>: asserts that the name is a \<open>str\<close>, and adds the new term to the
  universe when the name is not empty and no equal term is there. Where the set puts a
  new element in its iteration order is not specified; the model appends it.
\<close>

fun Term_init :: "state \<Rightarrow> arg \<Rightarrow> (error + Term) \<times> state" where
  "Term_init s (Str n) =
     (Inr (Term n),
      if n \<noteq> [] \<and> \<not> in_universe (universe s) (TermArg (Term n))
      then s\<lparr>universe := universe s @ [Term n]\<rparr> else s)"
| "Term_init s a = (Inl AssertionError, s)"

text \<open>
  \<open>key in d\<close> and \<open>d[key]\<close> on a dict keyed by strings. A \<open>str\<close> is looked up as it is. A
  Term hashes by its name and equals a string key of that name, unless its name is
  empty (then it hashes by identity). A bool or a formula meets no string key.
\<close>

fun lookup :: "bindings \<Rightarrow> arg \<Rightarrow> Term option" where
  "lookup d (Str s) = d s"
| "lookup d (TermArg t) = (if name t \<noteq> [] then d (name t) else None)"
| "lookup d (BoolArg b) = None"
| "lookup d (FormArg f) = None"

text \<open>\<open>FreeVars.__setitem__\<close>: warns when the key is bound, then stores \<open>Term(val)\<close>.\<close>

definition FreeVars_setitem :: "state \<Rightarrow> string \<Rightarrow> arg \<Rightarrow> (error + unit) \<times> state" where
  "FreeVars_setitem s key val =
     (case Term_init s val of
        (Inl e, s') \<Rightarrow> (Inl e, s')
      | (Inr t, s') \<Rightarrow> (Inr (), s'\<lparr>free := (free s')(key \<mapsto> t)\<rparr>))"

subsection \<open>Predicates\<close>

text \<open>\<open>Predicate.__init__\<close>: \<open>assert arity < 3\<close>, then the fields, then the registry.\<close>

definition Predicate_init :: "state \<Rightarrow> int \<Rightarrow> string \<Rightarrow> (error + nat) \<times> state" where
  "Predicate_init s ar nm =
     (if ar < 3
      then (Inr (next_id s),
            s\<lparr>heap := (heap s)(next_id s := \<lparr>arity = ar, pred_name = nm, truths = {}\<rparr>),
              next_id := Suc (next_id s),
              predicates := insert (next_id s) (predicates s)\<rparr>)
      else (Inl AssertionError, s))"

text \<open>The loop of \<open>Predicate.fact\<close> that builds \<open>termified\<close>.\<close>

fun termified :: "state \<Rightarrow> arg list \<Rightarrow> (error + Term list) \<times> state" where
  "termified s [] = (Inr [], s)"
| "termified s (TermArg t # as) =
     (case termified s as of
        (Inl e, s') \<Rightarrow> (Inl e, s')
      | (Inr ts, s') \<Rightarrow> (Inr (t # ts), s'))"
| "termified s (Str n # as) =
     (case Term_init s (Str n) of
        (Inl e, s') \<Rightarrow> (Inl e, s')
      | (Inr t, s') \<Rightarrow>
          (case termified s' as of
             (Inl e, s'') \<Rightarrow> (Inl e, s'')
           | (Inr ts, s'') \<Rightarrow> (Inr (t # ts), s'')))"
| "termified s (a # as) = (Inl (ValueError (MustBeTerms a)), s)"

text \<open>\<open>Predicate.fact\<close>: the arity assertion, the loop, and the insertion into \<open>_truths\<close>.\<close>

definition Predicate_fact :: "state \<Rightarrow> nat \<Rightarrow> arg list \<Rightarrow> (error + unit) \<times> state" where
  "Predicate_fact s p args =
     (if int (length args) \<noteq> arity (heap s p) then (Inl AssertionError, s)
      else case termified s args of
        (Inl e, s') \<Rightarrow> (Inl e, s')
      | (Inr ts, s') \<Rightarrow>
          (Inr (), s'\<lparr>heap := (heap s')(p := (heap s' p)\<lparr>truths := insert ts (truths (heap s' p))\<rparr>)\<rparr>))"

text \<open>\<open>Predicate.get_satisfying\<close> copies the fact table.\<close>

definition get_satisfying :: "state \<Rightarrow> nat \<Rightarrow> Term list set" where
  "get_satisfying s p = truths (heap s p)"

text \<open>The second loop of \<open>Predicate.__call__\<close>, which builds \<open>termify\<close>.\<close>

fun termify :: "state \<Rightarrow> arg list \<Rightarrow> (error + Term list) \<times> state" where
  "termify s [] = (Inr [], s)"
| "termify s (TermArg t # as) =
     (case termify s as of
        (Inl e, s') \<Rightarrow> (Inl e, s')
      | (Inr ts, s') \<Rightarrow> (Inr (t # ts), s'))"
| "termify s (Str n # as) =
     (case Term_init s (Str n) of
        (Inl e, s') \<Rightarrow> (Inl e, s')
      | (Inr t, s') \<Rightarrow>
          (case termify s' as of
             (Inl e, s'') \<Rightarrow> (Inl e, s'')
           | (Inr ts, s'') \<Rightarrow> (Inr (t # ts), s'')))"
| "termify s (a # as) = (Inl (ValueError (TypeUnsuitable a)), s)"

text \<open>
  \<open>Predicate.__call__\<close>: the arity assertion; the first loop returns the deferred
  \<open>App((self, args))\<close> at the first argument that is not in the universe; otherwise
  the arguments become terms and the result is \<open>Top()\<close> or \<open>Bot()\<close>.
\<close>

definition Predicate_call :: "state \<Rightarrow> nat \<Rightarrow> arg list \<Rightarrow> (error + formula) \<times> state" where
  "Predicate_call s p args =
     (if int (length args) \<noteq> arity (heap s p) then (Inl AssertionError, s)
      else if list_ex (\<lambda>a. \<not> in_universe (universe s) a) args
      then (Inr (App (PredicateRef p) args), s)
      else case termify s args of
        (Inl e, s') \<Rightarrow> (Inl e, s')
      | (Inr ts, s') \<Rightarrow> (Inr (if ts \<in> truths (heap s' p) then Top else Bot), s'))"

text \<open>\<open>clear_all\<close> calls \<open>clear()\<close> on the four module-level containers.\<close>

definition clear_all :: "state \<Rightarrow> state" where
  "clear_all s = s\<lparr>universe := [], predicates := {}, free := Map.empty, knowledge_base := []\<rparr>"

subsection \<open>Interpretation\<close>

text \<open>
  Every \<open>interpret\<close> method returns a pair of the truth value and the bindings. The
  bindings are one dict that the quantifiers update in place and that every method
  hands back, so the model threads one value. A raise is \<open>Some (Inl e)\<close>. \<open>None\<close>
  means that the fuel ran out: \<open>Predicate.interpret\<close> ends by calling the predicate on
  the resolved arguments and interpreting what comes back, which is again a deferred
  application when a resolved argument is not in the universe, and nothing bounds how
  often that repeats. Interpreting an application of a predicate takes one unit of fuel.
\<close>

type_synonym 'a result = "(error + 'a) option"

text \<open>The loop of \<open>Forall.interpret\<close> over the elements of the universe.\<close>

fun Forall_loop :: "(bindings \<Rightarrow> (bool \<times> bindings) result) \<Rightarrow> string \<Rightarrow> Term list \<Rightarrow> bindings
    \<Rightarrow> (bool \<times> bindings) result" where
  "Forall_loop scope binder [] bindings = Some (Inr (True, bindings))"
| "Forall_loop scope binder (element # rest) bindings =
     (case scope (bindings(binder \<mapsto> element)) of
        None \<Rightarrow> None
      | Some (Inl e) \<Rightarrow> Some (Inl e)
      | Some (Inr (tv, m)) \<Rightarrow>
          if \<not> tv then Some (Inr (False, m)) else Forall_loop scope binder rest m)"

text \<open>The loop of \<open>Exists.interpret\<close>.\<close>

fun Exists_loop :: "(bindings \<Rightarrow> (bool \<times> bindings) result) \<Rightarrow> string \<Rightarrow> Term list \<Rightarrow> bindings
    \<Rightarrow> (bool \<times> bindings) result" where
  "Exists_loop scope binder [] bindings = Some (Inr (False, bindings))"
| "Exists_loop scope binder (element # rest) bindings =
     (case scope (bindings(binder \<mapsto> element)) of
        None \<Rightarrow> None
      | Some (Inl e) \<Rightarrow> Some (Inl e)
      | Some (Inr (tv, m)) \<Rightarrow>
          if tv then Some (Inr (True, m)) else Exists_loop scope binder rest m)"

text \<open>
  \<open>interpret_formula\<close> is the \<open>interpret\<close> method of each class, \<open>App.interpret\<close> and
  \<open>Predicate.interpret\<close> included; \<open>resolve_args\<close> is the loop of
  \<open>Predicate.interpret\<close> that replaces the arguments in \<open>arglist\<close>. The call of the
  predicate on the resolved arguments leaves the stores as they are
  (lemma \<open>Predicate_call_state\<close> below), so interpretation reads the state only.
\<close>

fun interpret_formula :: "nat \<Rightarrow> state \<Rightarrow> formula \<Rightarrow> bindings \<Rightarrow> (bool \<times> bindings) result"
and resolve_args :: "nat \<Rightarrow> state \<Rightarrow> arg list \<Rightarrow> bindings \<Rightarrow> (arg list \<times> bindings) result" where
  "interpret_formula n s Top bindings = Some (Inr (True, bindings))"
| "interpret_formula n s Bot bindings = Some (Inr (False, bindings))"
| "interpret_formula n s (And_conn left right) bindings =
     (case interpret_formula n s left bindings of
        None \<Rightarrow> None
      | Some (Inl e) \<Rightarrow> Some (Inl e)
      | Some (Inr (b1, m1)) \<Rightarrow>
          (case interpret_formula n s right m1 of
             None \<Rightarrow> None
           | Some (Inl e) \<Rightarrow> Some (Inl e)
           | Some (Inr (b2, m2)) \<Rightarrow> Some (Inr (b1 \<and> b2, m2))))"
| "interpret_formula n s (Or_conn left right) bindings =
     (case interpret_formula n s left bindings of
        None \<Rightarrow> None
      | Some (Inl e) \<Rightarrow> Some (Inl e)
      | Some (Inr (b1, m1)) \<Rightarrow>
          (case interpret_formula n s right m1 of
             None \<Rightarrow> None
           | Some (Inl e) \<Rightarrow> Some (Inl e)
           | Some (Inr (b2, m2)) \<Rightarrow> Some (Inr (b1 \<or> b2, m2))))"
| "interpret_formula n s (Implies_conn left right) bindings =
     (case interpret_formula n s left bindings of
        None \<Rightarrow> None
      | Some (Inl e) \<Rightarrow> Some (Inl e)
      | Some (Inr (b, bindings')) \<Rightarrow>
          if b then interpret_formula n s right bindings' else Some (Inr (True, bindings')))"
| "interpret_formula n s (Not_conn expr) bindings =
     (case interpret_formula n s expr bindings of
        None \<Rightarrow> None
      | Some (Inl e) \<Rightarrow> Some (Inl e)
      | Some (Inr (tv, bindings')) \<Rightarrow> Some (Inr (\<not> tv, bindings')))"
| "interpret_formula n s (Forall binder scope) bindings =
     Forall_loop (\<lambda>b. interpret_formula n s scope b) binder (universe s) bindings"
| "interpret_formula n s (Exists binder scope) bindings =
     Exists_loop (\<lambda>b. interpret_formula n s scope b) binder (universe s) bindings"
| "interpret_formula n s (PredicateObj p) bindings = Some (Inl AssertionError)"
| "interpret_formula n s (App (FunctionRef f) args) bindings = Some (Inl (ValueError NotYetImplemented))"
| "interpret_formula n s (App OtherCallable args) bindings = Some (Inl (ValueError UnknownCallable))"
| "interpret_formula 0 s (App (PredicateRef p) args) bindings = None"
| "interpret_formula (Suc n) s (App (PredicateRef p) args) bindings =
     (case resolve_args n s args bindings of
        None \<Rightarrow> None
      | Some (Inl e) \<Rightarrow> Some (Inl e)
      | Some (Inr (arglist, bindings')) \<Rightarrow>
          (case Predicate_call s p arglist of
             (Inl e, s') \<Rightarrow> Some (Inl e)
           | (Inr f, s') \<Rightarrow> interpret_formula n s f bindings'))"
| "resolve_args n s [] bindings = Some (Inr ([], bindings))"
| "resolve_args n s (a # rest) bindings =
     (if in_universe (universe s) a then
        (case resolve_args n s rest bindings of
           None \<Rightarrow> None
         | Some (Inl e) \<Rightarrow> Some (Inl e)
         | Some (Inr (arglist, bindings')) \<Rightarrow> Some (Inr (a # arglist, bindings')))
      else
        (case a of
           FormArg f \<Rightarrow>
             (case interpret_formula n s f bindings of
                None \<Rightarrow> None
              | Some (Inl e) \<Rightarrow> Some (Inl e)
              | Some (Inr (tv, bindings')) \<Rightarrow>
                  (case resolve_args n s rest bindings' of
                     None \<Rightarrow> None
                   | Some (Inl e) \<Rightarrow> Some (Inl e)
                   | Some (Inr (arglist, bindings'')) \<Rightarrow> Some (Inr (BoolArg tv # arglist, bindings''))))
         | _ \<Rightarrow>
             (case lookup bindings a of
                Some t \<Rightarrow>
                  (case resolve_args n s rest bindings of
                     None \<Rightarrow> None
                   | Some (Inl e) \<Rightarrow> Some (Inl e)
                   | Some (Inr (arglist, bindings')) \<Rightarrow> Some (Inr (TermArg t # arglist, bindings')))
              | None \<Rightarrow>
                  (case lookup (free s) a of
                     Some t \<Rightarrow>
                       (case resolve_args n s rest bindings of
                          None \<Rightarrow> None
                        | Some (Inl e) \<Rightarrow> Some (Inl e)
                        | Some (Inr (arglist, bindings')) \<Rightarrow> Some (Inr (TermArg t # arglist, bindings')))
                   | None \<Rightarrow> Some (Inl (ValueError (CannotInterpret a (universe s) (free s))))))))"


text \<open>\<open>Exists.fact\<close> raises whatever it is given.\<close>

definition Exists_fact :: "state \<Rightarrow> (error + unit) \<times> state" where
  "Exists_fact s = (Inl (ValueError NoExistentialFacts), s)"

subsection \<open>Operators on terms and on predicates\<close>

text \<open>
  The methods of \<open>Term\<close> and of \<open>Predicate\<close> whose body is a single \<open>raise\<close>.
\<close>

definition Term_and :: "Term \<Rightarrow> arg \<Rightarrow> error + arg" where
  "Term_and self other = Inl (ValueError (NotDefinedForTerms ''And''))"

definition Term_or :: "Term \<Rightarrow> arg \<Rightarrow> error + arg" where
  "Term_or self other = Inl (ValueError (NotDefinedForTerms ''Or''))"

definition Term_not :: "Term \<Rightarrow> arg \<Rightarrow> error + arg" where
  "Term_not self other = Inl (ValueError (NotDefinedForTerms ''Not''))"

definition Predicate_eq :: "nat \<Rightarrow> arg \<Rightarrow> error + arg" where
  "Predicate_eq self other =
     Inl (ValueError (NotSupportedForPredicates ''Direct equality testing for predicates not supported''))"

definition Predicate_lt :: "nat \<Rightarrow> arg \<Rightarrow> error + arg" where
  "Predicate_lt self other =
     Inl (ValueError (NotSupportedForPredicates ''Predicates should not be compared''))"

definition Predicate_gt :: "nat \<Rightarrow> arg \<Rightarrow> error + arg" where
  "Predicate_gt self other =
     Inl (ValueError (NotSupportedForPredicates ''Predicates should not be compared''))"

text \<open>
  What Python does with an operator whose left or only operand is a Term.
  \<open>t & other\<close> calls \<open>Term.__and__\<close> and \<open>t | other\<close> calls \<open>Term.__or__\<close>.
  \<open>~t\<close> looks for \<open>__invert__\<close>, which neither \<open>Term\<close> nor its base \<open>object\<close> has, and the
  interpreter raises \<open>TypeError\<close>. \<open>not t\<close> tests the truth of \<open>t\<close> through \<open>__bool__\<close>,
  then \<open>__len__\<close>; \<open>Term\<close> has neither, so a term is true and \<open>not t\<close> is \<open>False\<close>.
  No operator calls a method named \<open>__not__\<close>; \<open>Term_not\<close> runs only when it is called
  by that name. The second operand of the two unary operators is ignored.
\<close>

datatype operator = BitAnd | BitOr | Invert | BoolNot

fun Term_operator :: "operator \<Rightarrow> Term \<Rightarrow> arg \<Rightarrow> error + arg" where
  "Term_operator BitAnd t other = Term_and t other"
| "Term_operator BitOr t other = Term_or t other"
| "Term_operator Invert t other = Inl (TypeError ''bad operand type for unary ~'')"
| "Term_operator BoolNot t other = Inr (BoolArg False)"

subsection \<open>Notions used to state the properties\<close>

text \<open>
  The term that \<open>Predicate.__call__\<close> makes of a concrete argument: a Term stays, a
  string becomes the Term of that name. \<open>coerced\<close> is the tuple of them.
\<close>

fun coerce :: "arg \<Rightarrow> Term option" where
  "coerce (Str n) = Some (Term n)"
| "coerce (TermArg t) = Some t"
| "coerce (BoolArg b) = None"
| "coerce (FormArg f) = None"

fun coerced :: "arg list \<Rightarrow> Term list option" where
  "coerced [] = Some []"
| "coerced (a # as) =
     (case coerce a of
        None \<Rightarrow> None
      | Some t \<Rightarrow> (case coerced as of None \<Rightarrow> None | Some ts \<Rightarrow> Some (t # ts)))"

text \<open>
  \<open>passes_all scope binder elements bindings\<close>: the scope comes out true for each of
  the elements in turn, each bound to the binder in the bindings that the element
  before it left; the result is the bindings after the last one.
\<close>

fun passes_all :: "(bindings \<Rightarrow> (bool \<times> bindings) result) \<Rightarrow> string \<Rightarrow> Term list \<Rightarrow> bindings
    \<Rightarrow> bindings option" where
  "passes_all scope binder [] bindings = Some bindings"
| "passes_all scope binder (element # rest) bindings =
     (case scope (bindings(binder \<mapsto> element)) of
        Some (Inr (True, m)) \<Rightarrow> passes_all scope binder rest m
      | _ \<Rightarrow> None)"

text \<open>
  An argument has no resolution when none of the four steps of the loop applies to it:
  it is not in the universe, not a formula, not bound locally and not a free variable.
\<close>

fun is_formula :: "arg \<Rightarrow> bool" where
  "is_formula (FormArg f) = True"
| "is_formula a = False"

definition unresolved :: "state \<Rightarrow> bindings \<Rightarrow> arg \<Rightarrow> bool" where
  "unresolved s b a =
     (\<not> in_universe (universe s) a \<and> \<not> is_formula a
      \<and> lookup b a = None \<and> lookup (free s) a = None)"

text \<open>What the resolution loop puts in the place of an argument that is not a formula.\<close>

definition resolved :: "state \<Rightarrow> bindings \<Rightarrow> arg \<Rightarrow> arg" where
  "resolved s b a =
     (if in_universe (universe s) a then a
      else case lookup b a of
        Some t \<Rightarrow> TermArg t
      | None \<Rightarrow> (case lookup (free s) a of Some t \<Rightarrow> TermArg t | None \<Rightarrow> a))"

text \<open>
  A state as the module's own tests build it: the predicate \<open>PreReq\<close> of arity 2 at
  address 0, with the facts \<open>PreReq(MATH21, MATH22)\<close> and \<open>PreReq(MATH22, MATH121)\<close>,
  which put three terms in the universe.
\<close>

definition prereq :: state where
  "prereq = \<lparr>universe = [Term ''MATH21'', Term ''MATH22'', Term ''MATH121''],
     heap = (\<lambda>_. \<lparr>arity = 0, pred_name = [], truths = {}\<rparr>)
       (0 := \<lparr>arity = 2, pred_name = ''PreReq'',
               truths = {[Term ''MATH21'', Term ''MATH22''], [Term ''MATH22'', Term ''MATH121'']}\<rparr>),
     next_id = 1, predicates = {0}, free = Map.empty, knowledge_base = []\<rparr>"

text \<open>The scenario after \<open>free["x"] = "MATH121"\<close>.\<close>

definition prereq_x :: state where
  "prereq_x = prereq\<lparr>free := [''x'' \<mapsto> Term ''MATH121'']\<rparr>"

text \<open>The scenario after \<open>free["x"] = ""\<close>: the empty name makes a term outside the universe.\<close>

definition prereq_blank :: state where
  "prereq_blank = prereq\<lparr>free := [''x'' \<mapsto> Term []]\<rparr>"

section \<open>Properties\<close>

subsection \<open>The module's own scenario\<close>

lemma prereq_built:
  "\<exists>s1 s2. Predicate_init initial 2 ''PreReq'' = (Inr 0, s1)
     \<and> Predicate_fact s1 0 [Str ''MATH21'', Str ''MATH22''] = (Inr (), s2)
     \<and> Predicate_fact s2 0 [Str ''MATH22'', Str ''MATH121''] = (Inr (), prereq)"
  by (simp add: Predicate_init_def Predicate_fact_def initial_def prereq_def insert_commute)

subsection \<open>Calling a predicate\<close>

lemma Term_init_member:
  "in_universe (universe s) (Str n) \<Longrightarrow> Term_init s (Str n) = (Inr (Term n), s)"
  by (simp add: list_ex_iff)

lemma termify_members:
  "list_all (in_universe (universe s)) args \<Longrightarrow>
   \<exists>ts. coerced args = Some ts \<and> termify s args = (Inr ts, s)"
proof (induction args)
  case Nil
  then show ?case by simp
next
  case (Cons a args)
  then obtain ts where ts: "coerced args = Some ts" "termify s args = (Inr ts, s)"
    by auto
  from Cons.prems have a: "in_universe (universe s) a" by simp
  show ?case
  proof (cases a)
    case (Str n)
    with a ts show ?thesis by (simp add: list_ex_iff)
  next
    case (TermArg t)
    with ts show ?thesis by simp
  next
    case (BoolArg b)
    with a show ?thesis by simp
  next
    case (FormArg f)
    with a show ?thesis by simp
  qed
qed

lemma Predicate_call_members:
  assumes "list_all (in_universe (universe s)) args"
    and "int (length args) = arity (heap s p)"
  shows "\<exists>ts. coerced args = Some ts \<and>
           Predicate_call s p args = (Inr (if ts \<in> truths (heap s p) then Top else Bot), s)"
proof -
  obtain ts where ts: "coerced args = Some ts" "termify s args = (Inr ts, s)"
    using termify_members [OF assms(1)] by blast
  moreover have "\<not> list_ex (\<lambda>a. \<not> in_universe (universe s) a) args"
    using assms(1) by (simp add: list_all_iff list_ex_iff)
  ultimately show ?thesis
    using assms(2) by (simp add: Predicate_call_def)
qed

lemma Predicate_call_deferred:
  assumes "\<not> list_all (in_universe (universe s)) args"
    and "int (length args) = arity (heap s p)"
  shows "Predicate_call s p args = (Inr (App (PredicateRef p) args), s)"
proof -
  have "list_ex (\<lambda>a. \<not> in_universe (universe s) a) args"
    using assms(1) by (simp add: list_all_iff list_ex_iff)
  then show ?thesis
    using assms(2) by (simp add: Predicate_call_def)
qed

text \<open>
  The call never changes the stores: the only constructor of terms it reaches,
  \<open>Term(arg)\<close> in the second loop, runs for arguments that are in the universe already.
\<close>

lemma Predicate_call_state: "snd (Predicate_call s p args) = s"
proof (cases "int (length args) = arity (heap s p)")
  case False
  then show ?thesis by (simp add: Predicate_call_def)
next
  case ar: True
  show ?thesis
  proof (cases "list_all (in_universe (universe s)) args")
    case True
    then show ?thesis using Predicate_call_members [OF True ar] by auto
  next
    case False
    then show ?thesis using Predicate_call_deferred [OF False ar] by simp
  qed
qed

text \<open>
  Claim C1. A predicate called with as many arguments as its arity: when every
  argument is in the universe, the result is \<open>Top\<close> if the tuple of the arguments as
  terms is in the fact table and \<open>Bot\<close> otherwise; when some argument is not in the
  universe, the result is the deferred application of the predicate to the arguments as
  given, which is neither \<open>Top\<close> nor \<open>Bot\<close>. Either way the stores, the fact table among
  them, are as before.
\<close>

theorem Predicate_call_eager_or_deferred:
  assumes "int (length args) = arity (heap s p)"
  shows "(list_all (in_universe (universe s)) args \<longrightarrow>
            (\<exists>ts. coerced args = Some ts \<and>
                  Predicate_call s p args =
                    (Inr (if ts \<in> truths (heap s p) then Top else Bot), s)))
       \<and> (\<not> list_all (in_universe (universe s)) args \<longrightarrow>
            Predicate_call s p args = (Inr (App (PredicateRef p) args), s)
            \<and> fst (Predicate_call s p args) \<noteq> Inr Top
            \<and> fst (Predicate_call s p args) \<noteq> Inr Bot)"
  using assms Predicate_call_members Predicate_call_deferred by simp

theorem Predicate_call_eager_or_deferred_witness:
  "int (length [Str ''MATH22'', Str ''MATH121'']) = arity (heap prereq 0)
   \<and> Predicate_call prereq 0 [Str ''MATH22'', Str ''MATH121''] = (Inr Top, prereq)
   \<and> Predicate_call prereq 0 [Str ''MATH22'', TermArg (Term ''MATH21'')] = (Inr Bot, prereq)
   \<and> Predicate_call prereq 0 [Str ''MATH22'', Str ''x'']
       = (Inr (App (PredicateRef 0) [Str ''MATH22'', Str ''x'']), prereq)"
proof -
  have ar: "int (length [Str ''MATH22'', Str ''MATH121'']) = arity (heap prereq 0)"
     "int (length [Str ''MATH22'', TermArg (Term ''MATH21'')]) = arity (heap prereq 0)"
     "int (length [Str ''MATH22'', Str ''x'']) = arity (heap prereq 0)"
    by (simp_all add: prereq_def)
  have U: "universe prereq = [Term ''MATH21'', Term ''MATH22'', Term ''MATH121'']"
    and T: "truths (heap prereq 0)
      = {[Term ''MATH21'', Term ''MATH22''], [Term ''MATH22'', Term ''MATH121'']}"
    by (simp_all add: prereq_def)
  show ?thesis
    using Predicate_call_eager_or_deferred [OF ar(1)]
      Predicate_call_eager_or_deferred [OF ar(2)]
      Predicate_call_eager_or_deferred [OF ar(3)] ar(1)
    by (simp add: U T)
qed

subsection \<open>Formulas over the scenario\<close>

lemma universe_prereq:
  "universe prereq = [Term ''MATH21'', Term ''MATH22'', Term ''MATH121'']"
  by (simp add: prereq_def)

lemma free_prereq: "free prereq = Map.empty"
  by (simp add: prereq_def)

lemma heap_prereq:
  "heap prereq 0 = \<lparr>arity = 2, pred_name = ''PreReq'',
     truths = {[Term ''MATH21'', Term ''MATH22''], [Term ''MATH22'', Term ''MATH121'']}\<rparr>"
  by (simp add: prereq_def)

lemmas prereq_simps = universe_prereq free_prereq heap_prereq Predicate_call_def

text \<open>\<open>Forall("y", PreReq("y", "MATH121"))\<close> fails at the first element.\<close>

lemma all_prereq_of_121:
  "interpret_formula (Suc 0) prereq
     (Forall ''y'' (App (PredicateRef 0) [Str ''y'', Str ''MATH121''])) b
   = Some (Inr (False, b(''y'' \<mapsto> Term ''MATH21'')))"
  by (simp add: prereq_simps)

text \<open>\<open>Exists("x", PreReq("x", "MATH22"))\<close> holds at the first element.\<close>

lemma some_prereq_of_22:
  "interpret_formula (Suc 0) prereq
     (Exists ''x'' (App (PredicateRef 0) [Str ''x'', Str ''MATH22''])) b
   = Some (Inr (True, b(''x'' \<mapsto> Term ''MATH21'')))"
  by (simp add: prereq_simps)

text \<open>\<open>PreReq("z", "MATH22")\<close> with nothing bound to \<open>z\<close> raises.\<close>

lemma unbound_z:
  "interpret_formula (Suc 0) prereq (App (PredicateRef 0) [Str ''z'', Str ''MATH22''])
     [''y'' \<mapsto> Term ''MATH21'']
   = Some (Inl (ValueError (CannotInterpret (Str ''z'') (universe prereq) (free prereq))))"
  by (simp add: prereq_simps)

text \<open>\<open>~PreReq("y", "MATH121")\<close>: true of \<open>MATH21\<close>, false of \<open>MATH22\<close>.\<close>

lemma not_prereq_of_121:
  "interpret_formula (Suc 0) prereq
     (Not_conn (App (PredicateRef 0) [Str ''y'', Str ''MATH121''])) [''y'' \<mapsto> Term ''MATH21'']
   = Some (Inr (True, [''y'' \<mapsto> Term ''MATH21'']))"
  "interpret_formula (Suc 0) prereq
     (Not_conn (App (PredicateRef 0) [Str ''y'', Str ''MATH121''])) [''y'' \<mapsto> Term ''MATH22'']
   = Some (Inr (False, [''y'' \<mapsto> Term ''MATH22'']))"
  by (simp_all add: prereq_simps)


subsection \<open>Connectives\<close>

text \<open>
  Claim C3. \<open>And\<close> and \<open>Or\<close> evaluate the left operand under the incoming bindings,
  giving \<open>(b1, m1)\<close>, then the right operand under \<open>m1\<close>, giving \<open>(b2, m2)\<close>, and return
  \<open>(b1 and b2, m2)\<close> and \<open>(b1 or b2, m2)\<close>. The right operand is evaluated whatever
  \<open>b1\<close> is: if it raises, or does not return, neither does the connective.
\<close>

theorem And_Or_evaluate_both:
  "(interpret_formula n s l b = Some (Inr (b1, m1)) \<and> interpret_formula n s r m1 = Some (Inr (b2, m2))
      \<longrightarrow> interpret_formula n s (And_conn l r) b = Some (Inr (b1 \<and> b2, m2))
        \<and> interpret_formula n s (Or_conn l r) b = Some (Inr (b1 \<or> b2, m2)))
   \<and> (interpret_formula n s l b = Some (Inr (b1, m1)) \<and> interpret_formula n s r m1 = Some (Inl e)
      \<longrightarrow> interpret_formula n s (And_conn l r) b = Some (Inl e)
        \<and> interpret_formula n s (Or_conn l r) b = Some (Inl e))
   \<and> (interpret_formula n s l b = Some (Inr (b1, m1)) \<and> interpret_formula n s r m1 = None
      \<longrightarrow> interpret_formula n s (And_conn l r) b = None
        \<and> interpret_formula n s (Or_conn l r) b = None)"
  by simp

theorem And_Or_evaluate_both_witness:
  "interpret_formula (Suc 0) prereq
      (Forall ''y'' (App (PredicateRef 0) [Str ''y'', Str ''MATH121''])) Map.empty
     = Some (Inr (False, [''y'' \<mapsto> Term ''MATH21'']))
   \<and> interpret_formula (Suc 0) prereq
      (Exists ''x'' (App (PredicateRef 0) [Str ''x'', Str ''MATH22''])) [''y'' \<mapsto> Term ''MATH21'']
     = Some (Inr (True, [''y'' \<mapsto> Term ''MATH21'', ''x'' \<mapsto> Term ''MATH21'']))
   \<and> interpret_formula (Suc 0) prereq
      (And_conn (Forall ''y'' (App (PredicateRef 0) [Str ''y'', Str ''MATH121'']))
                (Exists ''x'' (App (PredicateRef 0) [Str ''x'', Str ''MATH22'']))) Map.empty
     = Some (Inr (False, [''y'' \<mapsto> Term ''MATH21'', ''x'' \<mapsto> Term ''MATH21'']))
   \<and> interpret_formula (Suc 0) prereq
      (Or_conn (Forall ''y'' (App (PredicateRef 0) [Str ''y'', Str ''MATH121'']))
               (Exists ''x'' (App (PredicateRef 0) [Str ''x'', Str ''MATH22'']))) Map.empty
     = Some (Inr (True, [''y'' \<mapsto> Term ''MATH21'', ''x'' \<mapsto> Term ''MATH21'']))
   \<and> interpret_formula (Suc 0) prereq
      (And_conn (Forall ''y'' (App (PredicateRef 0) [Str ''y'', Str ''MATH121'']))
                (App (PredicateRef 0) [Str ''z'', Str ''MATH22''])) Map.empty
     = Some (Inl (ValueError (CannotInterpret (Str ''z'') (universe prereq) (free prereq))))"
proof -
  let ?l = "Forall ''y'' (App (PredicateRef 0) [Str ''y'', Str ''MATH121''])"
  let ?r = "Exists ''x'' (App (PredicateRef 0) [Str ''x'', Str ''MATH22''])"
  let ?z = "App (PredicateRef 0) [Str ''z'', Str ''MATH22'']"
  let ?m1 = "[''y'' \<mapsto> Term ''MATH21'']"
  let ?m2 = "[''y'' \<mapsto> Term ''MATH21'', ''x'' \<mapsto> Term ''MATH21'']"
  have l: "interpret_formula (Suc 0) prereq ?l Map.empty = Some (Inr (False, ?m1))"
    by (rule all_prereq_of_121)
  have r: "interpret_formula (Suc 0) prereq ?r ?m1 = Some (Inr (True, ?m2))"
    by (rule some_prereq_of_22)
  have z: "interpret_formula (Suc 0) prereq ?z ?m1
      = Some (Inl (ValueError (CannotInterpret (Str ''z'') (universe prereq) (free prereq))))"
    by (rule unbound_z)
  from l r
    And_Or_evaluate_both [where n = "Suc 0" and s = prereq and l = ?l and r = ?r
      and b = Map.empty and ?b1.0 = False and ?m1.0 = ?m1 and ?b2.0 = True and ?m2.0 = ?m2]
  have both: "interpret_formula (Suc 0) prereq (And_conn ?l ?r) Map.empty
        = Some (Inr (False \<and> True, ?m2))
      \<and> interpret_formula (Suc 0) prereq (Or_conn ?l ?r) Map.empty
        = Some (Inr (False \<or> True, ?m2))"
    by blast
  from l z
    And_Or_evaluate_both [where n = "Suc 0" and s = prereq and l = ?l and r = ?z
      and b = Map.empty and ?b1.0 = False and ?m1.0 = ?m1
      and e = "ValueError (CannotInterpret (Str ''z'') (universe prereq) (free prereq))"]
  have raises: "interpret_formula (Suc 0) prereq (And_conn ?l ?z) Map.empty
      = Some (Inl (ValueError (CannotInterpret (Str ''z'') (universe prereq) (free prereq))))"
    by blast
  from l r both raises show ?thesis by simp
qed

text \<open>
  Claim C4. \<open>Implies\<close> evaluates the left operand. When that is false the result is
  true with the bindings the left operand returned, whatever the right operand is: it
  is not evaluated, so nothing of it shows in the result, not even a raise. When the
  left operand is true the result is what the right operand gives under the bindings
  the left one returned.
\<close>

theorem Implies_short_circuit:
  "(interpret_formula n s l b = Some (Inr (False, m1))
      \<longrightarrow> interpret_formula n s (Implies_conn l r) b = Some (Inr (True, m1)))
   \<and> (interpret_formula n s l b = Some (Inr (True, m1))
      \<longrightarrow> interpret_formula n s (Implies_conn l r) b = interpret_formula n s r m1)"
  by simp

theorem Implies_short_circuit_witness:
  "interpret_formula (Suc 0) prereq
      (Forall ''y'' (App (PredicateRef 0) [Str ''y'', Str ''MATH121''])) Map.empty
     = Some (Inr (False, [''y'' \<mapsto> Term ''MATH21'']))
   \<and> interpret_formula (Suc 0) prereq
      (Implies_conn (Forall ''y'' (App (PredicateRef 0) [Str ''y'', Str ''MATH121'']))
                    (App (PredicateRef 0) [Str ''z'', Str ''MATH22''])) Map.empty
     = Some (Inr (True, [''y'' \<mapsto> Term ''MATH21'']))
   \<and> interpret_formula (Suc 0) prereq
      (Exists ''x'' (App (PredicateRef 0) [Str ''x'', Str ''MATH22''])) Map.empty
     = Some (Inr (True, [''x'' \<mapsto> Term ''MATH21'']))
   \<and> interpret_formula (Suc 0) prereq
      (Implies_conn (Exists ''x'' (App (PredicateRef 0) [Str ''x'', Str ''MATH22'']))
                    (Forall ''y'' (App (PredicateRef 0) [Str ''y'', Str ''MATH121'']))) Map.empty
     = Some (Inr (False, [''x'' \<mapsto> Term ''MATH21'', ''y'' \<mapsto> Term ''MATH21'']))"
proof -
  let ?l = "Forall ''y'' (App (PredicateRef 0) [Str ''y'', Str ''MATH121''])"
  let ?r = "Exists ''x'' (App (PredicateRef 0) [Str ''x'', Str ''MATH22''])"
  let ?z = "App (PredicateRef 0) [Str ''z'', Str ''MATH22'']"
  have l: "interpret_formula (Suc 0) prereq ?l Map.empty
      = Some (Inr (False, [''y'' \<mapsto> Term ''MATH21'']))"
    by (rule all_prereq_of_121)
  have r: "interpret_formula (Suc 0) prereq ?r Map.empty
      = Some (Inr (True, [''x'' \<mapsto> Term ''MATH21'']))"
    by (rule some_prereq_of_22)
  have l': "interpret_formula (Suc 0) prereq ?l [''x'' \<mapsto> Term ''MATH21'']
      = Some (Inr (False, [''x'' \<mapsto> Term ''MATH21'', ''y'' \<mapsto> Term ''MATH21'']))"
    by (rule all_prereq_of_121)
  from l Implies_short_circuit [where n = "Suc 0" and s = prereq and l = ?l and r = ?z
      and b = Map.empty and ?m1.0 = "[''y'' \<mapsto> Term ''MATH21'']"]
  have skipped: "interpret_formula (Suc 0) prereq (Implies_conn ?l ?z) Map.empty
      = Some (Inr (True, [''y'' \<mapsto> Term ''MATH21'']))"
    by blast
  from r Implies_short_circuit [where n = "Suc 0" and s = prereq and l = ?r and r = ?l
      and b = Map.empty and ?m1.0 = "[''x'' \<mapsto> Term ''MATH21'']"]
  have "interpret_formula (Suc 0) prereq (Implies_conn ?r ?l) Map.empty
      = interpret_formula (Suc 0) prereq ?l [''x'' \<mapsto> Term ''MATH21'']"
    by blast
  with l' have passed: "interpret_formula (Suc 0) prereq (Implies_conn ?r ?l) Map.empty
      = Some (Inr (False, [''x'' \<mapsto> Term ''MATH21'', ''y'' \<mapsto> Term ''MATH21'']))"
    by simp
  from l r skipped passed show ?thesis by simp
qed

subsection \<open>Quantifiers\<close>

lemma Forall_loop_passes:
  "passes_all sc x es b = Some b' \<Longrightarrow> Forall_loop sc x es b = Some (Inr (True, b'))"
proof (induction es arbitrary: b)
  case Nil
  then show ?case by simp
next
  case (Cons e es)
  then show ?case
    by (auto split: option.splits sum.splits bool.splits prod.splits)
qed

lemma Forall_loop_stops:
  "passes_all sc x pre b = Some b1 \<Longrightarrow> sc (b1(x \<mapsto> e)) = Some (Inr (False, m)) \<Longrightarrow>
   Forall_loop sc x (pre @ e # post) b = Some (Inr (False, m))"
proof (induction pre arbitrary: b)
  case Nil
  from Nil.prems(1) have "b = b1" by simp
  with Nil.prems(2) have "sc (b(x \<mapsto> e)) = Some (Inr (False, m))" by blast
  then show ?case by simp
next
  case (Cons p pre)
  from Cons.prems(1) obtain m' where
    p: "sc (b(x \<mapsto> p)) = Some (Inr (True, m'))" and rest: "passes_all sc x pre m' = Some b1"
    by (auto split: option.splits sum.splits bool.splits prod.splits)
  from Cons.IH [OF rest Cons.prems(2)] p show ?case by simp
qed

text \<open>\<open>Exists\<close> over an empty universe is false.\<close>

lemma Exists_empty_universe:
  "universe s = [] \<Longrightarrow> interpret_formula n s (Exists x sc) b = Some (Inr (False, b))"
  by simp

text \<open>
  Claim C2. \<open>Forall(binder, scope).interpret\<close> goes through the elements of the
  universe in their order, binding each to the binder. Over an empty universe it
  returns true with the bindings it was given. If the scope is true of the elements
  \<open>pre\<close> and false of the next element \<open>e\<close>, it returns false with the bindings the scope
  returned at \<open>e\<close>, whatever elements \<open>post\<close> follow. If the scope is true of every
  element, it returns true with the bindings after the last one.
\<close>

theorem Forall_interpret_enumerates:
  "(universe s = [] \<longrightarrow> interpret_formula n s (Forall x sc) b = Some (Inr (True, b)))
   \<and> (universe s = pre @ e # post
        \<and> passes_all (interpret_formula n s sc) x pre b = Some b1
        \<and> interpret_formula n s sc (b1(x \<mapsto> e)) = Some (Inr (False, m))
      \<longrightarrow> interpret_formula n s (Forall x sc) b = Some (Inr (False, m)))
   \<and> (passes_all (interpret_formula n s sc) x (universe s) b = Some b'
      \<longrightarrow> interpret_formula n s (Forall x sc) b = Some (Inr (True, b')))"
  by (simp add: Forall_loop_passes Forall_loop_stops)

theorem Forall_interpret_enumerates_witness:
  "universe initial = []
   \<and> interpret_formula 0 initial (Forall ''x'' Bot) Map.empty = Some (Inr (True, Map.empty))
   \<and> universe prereq = [Term ''MATH21''] @ Term ''MATH22'' # [Term ''MATH121'']
   \<and> passes_all (interpret_formula (Suc 0) prereq
        (Not_conn (App (PredicateRef 0) [Str ''y'', Str ''MATH121''])))
        ''y'' [Term ''MATH21''] Map.empty = Some [''y'' \<mapsto> Term ''MATH21'']
   \<and> interpret_formula (Suc 0) prereq
        (Not_conn (App (PredicateRef 0) [Str ''y'', Str ''MATH121'']))
        ([''y'' \<mapsto> Term ''MATH21''](''y'' \<mapsto> Term ''MATH22''))
      = Some (Inr (False, [''y'' \<mapsto> Term ''MATH22'']))
   \<and> interpret_formula (Suc 0) prereq
        (Forall ''y'' (Not_conn (App (PredicateRef 0) [Str ''y'', Str ''MATH121''])))
        Map.empty
      = Some (Inr (False, [''y'' \<mapsto> Term ''MATH22'']))"
proof -
  let ?sc = "Not_conn (App (PredicateRef 0) [Str ''y'', Str ''MATH121''])"
  have U0: "universe initial = []"
    by (simp add: initial_def)
  have U: "universe prereq = [Term ''MATH21''] @ Term ''MATH22'' # [Term ''MATH121'']"
    by (simp add: universe_prereq)
  have pre: "passes_all (interpret_formula (Suc 0) prereq ?sc) ''y'' [Term ''MATH21''] Map.empty
      = Some [''y'' \<mapsto> Term ''MATH21'']"
    by (simp add: not_prereq_of_121 del: interpret_formula.simps)
  have e: "interpret_formula (Suc 0) prereq ?sc
      ([''y'' \<mapsto> Term ''MATH21''](''y'' \<mapsto> Term ''MATH22''))
      = Some (Inr (False, [''y'' \<mapsto> Term ''MATH22'']))"
    by (simp add: not_prereq_of_121 del: interpret_formula.simps)
  from U0 Forall_interpret_enumerates [where s = initial and n = 0 and x = "''x''"
      and sc = Bot and b = Map.empty]
  have empty: "interpret_formula 0 initial (Forall ''x'' Bot) Map.empty
      = Some (Inr (True, Map.empty))"
    by blast
  from U pre e Forall_interpret_enumerates [where s = prereq and n = "Suc 0" and x = "''y''"
      and sc = ?sc and b = Map.empty and pre = "[Term ''MATH21'']" and e = "Term ''MATH22''"
      and post = "[Term ''MATH121'']" and ?b1.0 = "[''y'' \<mapsto> Term ''MATH21'']"
      and m = "[''y'' \<mapsto> Term ''MATH22'']"]
  have stops: "interpret_formula (Suc 0) prereq (Forall ''y'' ?sc) Map.empty
      = Some (Inr (False, [''y'' \<mapsto> Term ''MATH22'']))"
    by blast
  from U0 empty U pre e stops show ?thesis by blast
qed

subsection \<open>Facts in the knowledge base\<close>



subsection \<open>Reset\<close>

text \<open>
  Claim C6, as the code has it. \<open>clear_all\<close> empties the universe, the registry of
  predicates, the free variables and the knowledge base. It does not reach into the
  Predicate objects: each keeps its fact table, and \<open>get_satisfying\<close> returns after
  the reset what it returned before.
\<close>

theorem clear_all_keeps_fact_tables:
  "universe (clear_all s) = [] \<and> predicates (clear_all s) = {} \<and> free (clear_all s) = Map.empty
   \<and> knowledge_base (clear_all s) = [] \<and> heap (clear_all s) = heap s
   \<and> get_satisfying (clear_all s) p = get_satisfying s p"
  by (simp add: clear_all_def get_satisfying_def)

text \<open>
  After \<open>clear_all\<close> in the scenario, the fact table of \<open>PreReq\<close> still holds its two
  facts, so it is not true that every predicate's fact table is empty.
\<close>

theorem clear_all_fact_table_counterexample:
  "get_satisfying (clear_all prereq) 0
     = {[Term ''MATH21'', Term ''MATH22''], [Term ''MATH22'', Term ''MATH121'']}
   \<and> get_satisfying (clear_all prereq) 0 \<noteq> {}"
  by (simp add: clear_all_def get_satisfying_def heap_prereq)

subsection \<open>Declaring a predicate\<close>

text \<open>
  Claim C8, as the code has it. The assertion of \<open>Predicate.__init__\<close> is
  \<open>arity < 3\<close>: the constructor raises for every arity of 3 or more, and for every
  arity below 3, negative ones included, it makes the predicate with that arity and
  an empty fact table and registers it.
\<close>

theorem Predicate_init_upper_bound_only:
  "(3 \<le> ar \<longrightarrow> Predicate_init s ar nm = (Inl AssertionError, s))
   \<and> (ar < 3 \<longrightarrow>
        (\<exists>s'. Predicate_init s ar nm = (Inr (next_id s), s')
           \<and> heap s' (next_id s) = \<lparr>arity = ar, pred_name = nm, truths = {}\<rparr>
           \<and> predicates s' = insert (next_id s) (predicates s)))"
  by (simp add: Predicate_init_def)

theorem Predicate_init_upper_bound_only_witness:
  "(3::int) \<le> 3 \<and> Predicate_init initial 3 ''T'' = (Inl AssertionError, initial)
   \<and> (-1::int) < 3 \<and> fst (Predicate_init initial (-1) ''N'') = Inr (next_id initial)
   \<and> (2::int) < 3 \<and> fst (Predicate_init initial 2 ''PreReq'') = Inr (next_id initial)"
proof -
  from Predicate_init_upper_bound_only [where ar = 3 and s = initial and nm = "''T''"]
  have three: "Predicate_init initial 3 ''T'' = (Inl AssertionError, initial)" by simp
  from Predicate_init_upper_bound_only [where ar = "-1" and s = initial and nm = "''N''"]
  have neg: "fst (Predicate_init initial (-1) ''N'') = Inr (next_id initial)" by auto
  from Predicate_init_upper_bound_only [where ar = 2 and s = initial and nm = "''PreReq''"]
  have two: "fst (Predicate_init initial 2 ''PreReq'') = Inr (next_id initial)" by auto
  from three neg two show ?thesis by simp
qed

text \<open>
  The arity \<open>-1\<close> is none of 0, 1 and 2, and the constructor accepts it: it returns the
  new predicate, whose arity is \<open>-1\<close>.
\<close>

theorem Predicate_init_negative_counterexample:
  "(-1::int) \<notin> {0, 1, 2} \<and> fst (Predicate_init initial (-1) ''N'') = Inr 0
   \<and> arity (heap (snd (Predicate_init initial (-1) ''N'')) 0) = -1"
  by (simp add: Predicate_init_def initial_def)

subsection \<open>Binding a free variable\<close>

text \<open>A value that is not a string fails the assertion of \<open>Term.__init__\<close>.\<close>

lemma FreeVars_setitem_not_str:
  "FreeVars_setitem s key (TermArg t) = (Inl AssertionError, s)"
  by (simp add: FreeVars_setitem_def)

text \<open>
  The empty name is the case that \<open>Term.__init__\<close> guards with \<open>if name\<close>: the term is
  stored as the binding and the universe stays as it is.
\<close>

lemma FreeVars_setitem_empty_name:
  "\<exists>s'. FreeVars_setitem s key (Str []) = (Inr (), s') \<and> free s' key = Some (Term [])
     \<and> universe s' = universe s \<and> \<not> in_universe (universe s') (TermArg (Term []))"
  by (simp add: FreeVars_setitem_def list_ex_iff)

text \<open>
  Claim C10. Binding a free variable to a value \<open>v\<close> stores \<open>Term(v)\<close>, and constructing
  a term with a non-empty name registers it: for a non-empty string \<open>v\<close>, after
  \<open>free[key] = v\<close> the binding of \<open>key\<close> is the term named \<open>v\<close> and that term is in the
  universe. If \<open>v\<close> was not in the universe before, the universe has grown by that
  one term; if it was, the universe is unchanged.
\<close>

theorem FreeVars_setitem_registers:
  assumes "v \<noteq> []"
  shows "\<exists>s'. FreeVars_setitem s key (Str v) = (Inr (), s')
     \<and> free s' key = Some (Term v)
     \<and> in_universe (universe s') (TermArg (Term v))
     \<and> (\<not> in_universe (universe s) (Str v) \<longrightarrow>
           set (universe s') = insert (Term v) (set (universe s))
           \<and> length (universe s') = Suc (length (universe s)))
     \<and> (in_universe (universe s) (Str v) \<longrightarrow> universe s' = universe s)"
  using assms by (auto simp: FreeVars_setitem_def list_ex_iff)

theorem FreeVars_setitem_registers_witness:
  "''MATH456'' \<noteq> [] \<and> \<not> in_universe (universe prereq) (Str ''MATH456'')
   \<and> (\<exists>s'. FreeVars_setitem prereq ''x'' (Str ''MATH456'') = (Inr (), s')
        \<and> free s' ''x'' = Some (Term ''MATH456'')
        \<and> in_universe (universe s') (TermArg (Term ''MATH456''))
        \<and> set (universe s') = {Term ''MATH21'', Term ''MATH22'', Term ''MATH121'', Term ''MATH456''}
        \<and> length (universe s') = 4)"
proof -
  have ne: "''MATH456'' \<noteq> []" by simp
  have new: "\<not> in_universe (universe prereq) (Str ''MATH456'')"
    by (simp add: universe_prereq)
  from FreeVars_setitem_registers [OF ne, where s = prereq and key = "''x''"] new
  obtain s' where "FreeVars_setitem prereq ''x'' (Str ''MATH456'') = (Inr (), s')"
    "free s' ''x'' = Some (Term ''MATH456'')"
    "in_universe (universe s') (TermArg (Term ''MATH456''))"
    "set (universe s') = insert (Term ''MATH456'') (set (universe prereq))"
    "length (universe s') = Suc (length (universe prereq))"
    by blast
  with ne new show ?thesis by (auto simp: universe_prereq)
qed

subsection \<open>Operators on terms and predicates\<close>

text \<open>\<open>&\<close> and \<open>|\<close> on a term raise the module's error; \<open>~\<close> raises the interpreter's.\<close>

lemma Term_and_or_raise:
  "Term_operator BitAnd t other = Inl (ValueError (NotDefinedForTerms ''And''))"
  "Term_operator BitOr t other = Inl (ValueError (NotDefinedForTerms ''Or''))"
  by (simp_all add: Term_and_def Term_or_def)

lemma Term_invert_raises: "isl (Term_operator Invert t other)"
  by simp

text \<open>\<open>==\<close>, \<open><\<close> and \<open>>\<close> on a predicate raise.\<close>

lemma Predicate_comparisons_raise:
  "isl (Predicate_eq p other)" "isl (Predicate_lt p other)" "isl (Predicate_gt p other)"
  by (simp_all add: Predicate_eq_def Predicate_lt_def Predicate_gt_def)

text \<open>
  Claim C9, where the code departs from it. \<open>not t\<close> on a term does not raise: it
  evaluates to \<open>False\<close>. The method \<open>__not__\<close> that holds the \<open>raise\<close> is never reached
  by an operator.
\<close>

theorem Term_not_returns_False:
  "Term_operator BoolNot (Term ''MATH21'') other = Inr (BoolArg False)
   \<and> \<not> isl (Term_operator BoolNot (Term ''MATH21'') other)"
  by simp

subsection \<open>Interpreting a deferred application\<close>

text \<open>
  One round of the resolution loop on an argument that is not a formula: it raises for
  an argument without resolution and goes on with the resolved argument otherwise.
\<close>

lemma resolve_args_step:
  assumes "\<not> is_formula a"
  shows "resolve_args n s (a # rest) b =
     (if unresolved s b a
      then Some (Inl (ValueError (CannotInterpret a (universe s) (free s))))
      else case resolve_args n s rest b of
             None \<Rightarrow> None
           | Some (Inl e) \<Rightarrow> Some (Inl e)
           | Some (Inr (arglist, b')) \<Rightarrow> Some (Inr (resolved s b a # arglist, b')))"
proof (cases a)
  case (Str x)
  then show ?thesis
    by (auto simp: unresolved_def resolved_def split: option.splits sum.splits prod.splits)
next
  case (TermArg t)
  then show ?thesis
    by (auto simp: unresolved_def resolved_def split: option.splits sum.splits prod.splits)
next
  case (BoolArg x)
  then show ?thesis
    by (auto simp: unresolved_def resolved_def split: option.splits sum.splits prod.splits)
next
  case (FormArg f)
  with assms show ?thesis by simp
qed







text \<open>The two scenarios with a free variable are what \<open>FreeVars.__setitem__\<close> makes of the first.\<close>

lemma prereq_x_built: "FreeVars_setitem prereq ''x'' (Str ''MATH121'') = (Inr (), prereq_x)"
  by (simp add: FreeVars_setitem_def prereq_x_def universe_prereq free_prereq)

lemma prereq_blank_built: "FreeVars_setitem prereq ''x'' (Str []) = (Inr (), prereq_blank)"
  by (simp add: FreeVars_setitem_def prereq_blank_def free_prereq)


subsection \<open>Fuel\<close>

text \<open>
  The quantifier loops return the same result when the scope is replaced by one that
  returns wherever the first one did.
\<close>

lemma Forall_loop_mono:
  "(\<And>b r. sc b = Some r \<Longrightarrow> sc' b = Some r) \<Longrightarrow>
   Forall_loop sc x es b = Some r \<Longrightarrow> Forall_loop sc' x es b = Some r"
proof (induction es arbitrary: b)
  case Nil
  then show ?case by simp
next
  case (Cons e es)
  from Cons.prems(2) obtain q where q: "sc (b(x \<mapsto> e)) = Some q"
    by (auto split: option.splits)
  then have q': "sc' (b(x \<mapsto> e)) = Some q" by (rule Cons.prems(1))
  show ?case
  proof (cases q)
    case (Inl err)
    with q q' Cons.prems(2) show ?thesis by auto
  next
    case (Inr p)
    obtain tv m where p: "p = (tv, m)" by (cases p)
    show ?thesis
    proof (cases tv)
      case True
      with Inr p q Cons.prems(2) have "Forall_loop sc x es m = Some r" by simp
      then have "Forall_loop sc' x es m = Some r"
        using Cons.IH Cons.prems(1) by blast
      with True Inr p q' show ?thesis by simp
    next
      case False
      with Inr p q q' Cons.prems(2) show ?thesis by auto
    qed
  qed
qed

lemma Exists_loop_mono:
  "(\<And>b r. sc b = Some r \<Longrightarrow> sc' b = Some r) \<Longrightarrow>
   Exists_loop sc x es b = Some r \<Longrightarrow> Exists_loop sc' x es b = Some r"
proof (induction es arbitrary: b)
  case Nil
  then show ?case by simp
next
  case (Cons e es)
  from Cons.prems(2) obtain q where q: "sc (b(x \<mapsto> e)) = Some q"
    by (auto split: option.splits)
  then have q': "sc' (b(x \<mapsto> e)) = Some q" by (rule Cons.prems(1))
  show ?case
  proof (cases q)
    case (Inl err)
    with q q' Cons.prems(2) show ?thesis by auto
  next
    case (Inr p)
    obtain tv m where p: "p = (tv, m)" by (cases p)
    show ?thesis
    proof (cases tv)
      case False
      with Inr p q Cons.prems(2) have "Exists_loop sc x es m = Some r" by simp
      then have "Exists_loop sc' x es m = Some r"
        using Cons.IH Cons.prems(1) by blast
      with False Inr p q' show ?thesis by simp
    next
      case True
      with Inr p q q' Cons.prems(2) show ?thesis by auto
    qed
  qed
qed

text \<open>
  A result reached with some fuel is the result with one unit more: for formulas and
  for the resolution loop together, by induction along the calls of the two functions.
\<close>

lemma fuel_Suc:
  "(\<forall>r. interpret_formula n s f b = Some r \<longrightarrow> interpret_formula (Suc n) s f b = Some r)"
  "(\<forall>r. resolve_args n s as b = Some r \<longrightarrow> resolve_args (Suc n) s as b = Some r)"
proof (induction n s f b and n s as b rule: interpret_formula_resolve_args.induct)
  case (1 n s bindings)
  then show ?case by simp
next
  case (2 n s bindings)
  then show ?case by simp
next
  case (3 n s left right bindings)
  show ?case
  proof (intro allI impI)
    fix r
    assume run: "interpret_formula n s (And_conn left right) bindings = Some r"
    then obtain q where q: "interpret_formula n s left bindings = Some q"
      by (auto split: option.splits)
    with 3(1) have q': "interpret_formula (Suc n) s left bindings = Some q" by blast
    show "interpret_formula (Suc n) s (And_conn left right) bindings = Some r"
    proof (cases q)
      case (Inl e)
      with q q' run show ?thesis by auto
    next
      case (Inr pr)
      obtain b1 m1 where pr: "pr = (b1, m1)" by (cases pr)
      from q Inr pr run obtain q2 where q2: "interpret_formula n s right m1 = Some q2"
        by (auto split: option.splits)
      have "\<forall>r. interpret_formula n s right m1 = Some r
          \<longrightarrow> interpret_formula (Suc n) s right m1 = Some r"
        using 3(2) [OF q Inr, of b1 m1] pr by simp
      with q2 have q2': "interpret_formula (Suc n) s right m1 = Some q2" by blast
      from q q' Inr pr q2 q2' run show ?thesis by auto
    qed
  qed
next
  case (4 n s left right bindings)
  show ?case
  proof (intro allI impI)
    fix r
    assume run: "interpret_formula n s (Or_conn left right) bindings = Some r"
    then obtain q where q: "interpret_formula n s left bindings = Some q"
      by (auto split: option.splits)
    with 4(1) have q': "interpret_formula (Suc n) s left bindings = Some q" by blast
    show "interpret_formula (Suc n) s (Or_conn left right) bindings = Some r"
    proof (cases q)
      case (Inl e)
      with q q' run show ?thesis by auto
    next
      case (Inr pr)
      obtain b1 m1 where pr: "pr = (b1, m1)" by (cases pr)
      from q Inr pr run obtain q2 where q2: "interpret_formula n s right m1 = Some q2"
        by (auto split: option.splits)
      have "\<forall>r. interpret_formula n s right m1 = Some r
          \<longrightarrow> interpret_formula (Suc n) s right m1 = Some r"
        using 4(2) [OF q Inr, of b1 m1] pr by simp
      with q2 have q2': "interpret_formula (Suc n) s right m1 = Some q2" by blast
      from q q' Inr pr q2 q2' run show ?thesis by auto
    qed
  qed
next
  case (5 n s left right bindings)
  show ?case
  proof (intro allI impI)
    fix r
    assume run: "interpret_formula n s (Implies_conn left right) bindings = Some r"
    then obtain q where q: "interpret_formula n s left bindings = Some q"
      by (auto split: option.splits)
    with 5(1) have q': "interpret_formula (Suc n) s left bindings = Some q" by blast
    show "interpret_formula (Suc n) s (Implies_conn left right) bindings = Some r"
    proof (cases q)
      case (Inl e)
      with q q' run show ?thesis by auto
    next
      case (Inr pr)
      obtain b1 m1 where pr: "pr = (b1, m1)" by (cases pr)
      show ?thesis
      proof (cases b1)
        case True
        with q Inr pr run have q2: "interpret_formula n s right m1 = Some r" by simp
        have "\<forall>r. interpret_formula n s right m1 = Some r
            \<longrightarrow> interpret_formula (Suc n) s right m1 = Some r"
          using 5(2) [OF q Inr, of b1 m1] pr True by simp
        with q2 have "interpret_formula (Suc n) s right m1 = Some r" by blast
        with q' Inr pr True show ?thesis by simp
      next
        case False
        with q q' Inr pr run show ?thesis by auto
      qed
    qed
  qed
next
  case (6 n s expr bindings)
  then show ?case
    by (auto split: option.splits sum.splits prod.splits)
next
  case (7 n s x scope bindings)
  then show ?case
    using Forall_loop_mono [of "interpret_formula n s scope" "interpret_formula (Suc n) s scope"]
    by auto
next
  case (8 n s x scope bindings)
  then show ?case
    using Exists_loop_mono [of "interpret_formula n s scope" "interpret_formula (Suc n) s scope"]
    by auto
next
  case (9 n s p bindings)
  then show ?case by simp
next
  case (10 n s f args bindings)
  then show ?case by simp
next
  case (11 n s args bindings)
  then show ?case by simp
next
  case (12 s p args bindings)
  then show ?case by simp
next
  case (13 n s p args bindings)
  show ?case
  proof (intro allI impI)
    fix r
    assume run: "interpret_formula (Suc n) s (App (PredicateRef p) args) bindings = Some r"
    then obtain q where q: "resolve_args n s args bindings = Some q"
      by (auto split: option.splits)
    with 13(1) have q': "resolve_args (Suc n) s args bindings = Some q" by blast
    show "interpret_formula (Suc (Suc n)) s (App (PredicateRef p) args) bindings = Some r"
    proof (cases q)
      case (Inl e)
      with q q' run show ?thesis by auto
    next
      case (Inr pr)
      obtain arglist b' where pr: "pr = (arglist, b')" by (cases pr)
      obtain out s' where call: "Predicate_call s p arglist = (out, s')"
        by (cases "Predicate_call s p arglist")
      show ?thesis
      proof (cases out)
        case (Inl e)
        with Inr pr q q' call run show ?thesis by auto
      next
        case out: (Inr g)
        with Inr pr q call run have "interpret_formula n s g b' = Some r" by simp
        moreover have "\<forall>r. interpret_formula n s g b' = Some r
            \<longrightarrow> interpret_formula (Suc n) s g b' = Some r"
          using 13(2) [OF q Inr, of arglist b' out s' g] pr call out by simp
        ultimately have "interpret_formula (Suc n) s g b' = Some r" by blast
        with out Inr pr q' call show ?thesis by simp
      qed
    qed
  qed
next
  case (14 n s bindings)
  then show ?case by simp
next
  case (15 n s a rest bindings)
  show ?case
  proof (cases a)
    case (FormArg g)
    then have nu: "\<not> in_universe (universe s) a" by simp
    show ?thesis
    proof (intro allI impI)
      fix r
      assume run: "resolve_args n s (a # rest) bindings = Some r"
      with nu FormArg obtain q where q: "interpret_formula n s g bindings = Some q"
        by (auto split: option.splits)
      with 15(8) [OF nu FormArg] have q': "interpret_formula (Suc n) s g bindings = Some q"
        by blast
      show "resolve_args (Suc n) s (a # rest) bindings = Some r"
      proof (cases q)
        case (Inl e)
        with nu FormArg q q' run show ?thesis by auto
      next
        case (Inr pr)
        obtain tv b' where pr: "pr = (tv, b')" by (cases pr)
        from nu FormArg q Inr pr run obtain q2 where q2: "resolve_args n s rest b' = Some q2"
          by (auto split: option.splits)
        have "\<forall>r. resolve_args n s rest b' = Some r \<longrightarrow> resolve_args (Suc n) s rest b' = Some r"
          using 15(9) [OF nu FormArg q Inr, of tv b'] pr by simp
        with q2 have q2': "resolve_args (Suc n) s rest b' = Some q2" by blast
        from nu FormArg q q' Inr pr q2 q2' run show ?thesis by auto
      qed
    qed
  next
    case (Str x1)
    then have nf: "\<not> is_formula a" by simp
    show ?thesis
    proof (cases "unresolved s bindings a")
      case True
      then show ?thesis
        by (simp add: resolve_args_step [OF nf] del: resolve_args.simps)
    next
      case False
      have rest: "\<forall>r. resolve_args n s rest bindings = Some r
          \<longrightarrow> resolve_args (Suc n) s rest bindings = Some r"
      proof (cases "in_universe (universe s) a")
        case True
        then show ?thesis by (rule 15(1))
      next
        case nu: False
        show ?thesis
        proof (cases "lookup bindings a")
          case (Some t)
          from nu Str Some show ?thesis by (rule 15(3))
        next
          case None
          with False nu nf obtain t where "lookup (free s) a = Some t"
            by (auto simp: unresolved_def)
          with nu Str None show ?thesis by (rule 15(2))
        qed
      qed
      with False show ?thesis
        by (auto simp: resolve_args_step [OF nf] simp del: resolve_args.simps
            split: option.splits)
    qed
  next
    case (TermArg x2)
    then have nf: "\<not> is_formula a" by simp
    show ?thesis
    proof (cases "unresolved s bindings a")
      case True
      then show ?thesis
        by (simp add: resolve_args_step [OF nf] del: resolve_args.simps)
    next
      case False
      have rest: "\<forall>r. resolve_args n s rest bindings = Some r
          \<longrightarrow> resolve_args (Suc n) s rest bindings = Some r"
      proof (cases "in_universe (universe s) a")
        case True
        then show ?thesis by (rule 15(1))
      next
        case nu: False
        show ?thesis
        proof (cases "lookup bindings a")
          case (Some t)
          from nu TermArg Some show ?thesis by (rule 15(5))
        next
          case None
          with False nu nf obtain t where "lookup (free s) a = Some t"
            by (auto simp: unresolved_def)
          with nu TermArg None show ?thesis by (rule 15(4))
        qed
      qed
      with False show ?thesis
        by (auto simp: resolve_args_step [OF nf] simp del: resolve_args.simps
            split: option.splits)
    qed
  next
    case (BoolArg x3)
    then show ?thesis by simp
  qed
qed

text \<open>Fuel only ever adds results: what is returned or raised with \<open>n\<close> is so with more.\<close>

lemma fuel_mono:
  assumes "interpret_formula n s f b = Some r" and "n \<le> m"
  shows "interpret_formula m s f b = Some r"
proof -
  have "interpret_formula (n + k) s f b = Some r" for k
  proof (induction k)
    case 0
    with assms(1) show ?case by simp
  next
    case (Suc k)
    with fuel_Suc(1) [of "n + k" s f b] show ?case by simp
  qed
  from this [of "m - n"] assms(2) show ?thesis by simp
qed

text \<open>
  The recursion that the fuel bounds does occur. After \<open>free["x"] = "x"\<close> and
  \<open>universe.clear()\<close> the name \<open>x\<close> resolves to a term named \<open>x\<close> that is not in the
  universe, the predicate called on it defers again, and the interpretation of
  \<open>P("x")\<close> calls itself without end: no amount of fuel gives a result.
\<close>

lemma interpret_unbounded:
  assumes "universe s = []" and "free s ''x'' = Some (Term ''x'')" and "arity (heap s p) = 1"
  shows "interpret_formula n s (App (PredicateRef p) [TermArg (Term ''x'')]) Map.empty = None"
    and "interpret_formula n s (App (PredicateRef p) [Str ''x'']) Map.empty = None"
proof -
  show loop: "interpret_formula n s (App (PredicateRef p) [TermArg (Term ''x'')]) Map.empty = None"
    for n
  proof (induction n)
    case 0
    show ?case by simp
  next
    case (Suc n)
    with assms show ?case by (simp add: Predicate_call_def)
  qed
  show "interpret_formula n s (App (PredicateRef p) [Str ''x'']) Map.empty = None"
  proof (cases n)
    case 0
    then show ?thesis by simp
  next
    case (Suc k)
    with assms loop [of k] show ?thesis by (simp add: Predicate_call_def)
  qed
qed

end
